theory Spec2Isabelle
  imports Complex_Main
begin

section \<open>Python values\<close>

text \<open>
  The service in \<^verbatim>\<open>modal-embeddings/app.py\<close> receives JSON bodies and returns Python
  dicts that the web framework serialises as JSON. One datatype covers both: the values
  Python's JSON parser produces. A \<open>JObj\<close> is a dict, its items in insertion order with
  distinct keys. A Python \<open>str\<close> is a list of characters, read as code points (\<open>char\<close>
  covers U+0000 to U+00FF). A Python float is the real number it stands for; the service
  only carries floats, and the arithmetic it does on clock readings is left to the
  environment below.
\<close>

datatype json =
    JNull
  | JBool bool
  | JInt int
  | JFloat real
  | JStr string
  | JArr "json list"
  | JObj "(string \<times> json) list"

text \<open>
  The exceptions that can leave a method or a route. \<open>HTTPException\<close> is the only one
  the code raises itself; \<open>LibraryError\<close> is a failure of the model library or of the
  GPU runtime, with its message.
\<close>

datatype error =
    HTTPException nat string
  | AttributeError
  | IndexError
  | TypeError
  | KeyError
  | LibraryError string

text \<open>Truth value of a value, as \<^verbatim>\<open>not x\<close> tests it.\<close>

fun py_truthy :: "json \<Rightarrow> bool" where
  "py_truthy JNull = False"
| "py_truthy (JBool b) = b"
| "py_truthy (JInt i) = (i \<noteq> 0)"
| "py_truthy (JFloat r) = (r \<noteq> 0)"
| "py_truthy (JStr s) = (s \<noteq> [])"
| "py_truthy (JArr xs) = (xs \<noteq> [])"
| "py_truthy (JObj kvs) = (kvs \<noteq> [])"

text \<open>\<^verbatim>\<open>len(x)\<close>: defined on sequences and dicts, a TypeError elsewhere.\<close>

fun py_len :: "json \<Rightarrow> error + nat" where
  "py_len (JStr s) = Inr (length s)"
| "py_len (JArr xs) = Inr (length xs)"
| "py_len (JObj kvs) = Inr (length kvs)"
| "py_len _ = Inl TypeError"

text \<open>
  The items a \<^verbatim>\<open>for\<close> loop sees: the elements of a list, the characters of a string,
  the keys of a dict; a TypeError elsewhere.
\<close>

fun py_iter :: "json \<Rightarrow> error + json list" where
  "py_iter (JArr xs) = Inr xs"
| "py_iter (JStr s) = Inr (map (\<lambda>c. JStr [c]) s)"
| "py_iter (JObj kvs) = Inr (map (\<lambda>kv. JStr (fst kv)) kvs)"
| "py_iter _ = Inl TypeError"

text \<open>\<^verbatim>\<open>d[k]\<close> with a string key.\<close>

fun py_getitem :: "json \<Rightarrow> string \<Rightarrow> error + json" where
  "py_getitem (JObj kvs) k = (case map_of kvs k of None \<Rightarrow> Inl KeyError | Some v \<Rightarrow> Inr v)"
| "py_getitem _ k = Inl TypeError"

text \<open>
  \<^verbatim>\<open>str.split()\<close> with no argument: the maximal runs of characters that are not
  whitespace. The whitespace code points below U+0100 are the ones \<^verbatim>\<open>str.isspace\<close>
  accepts.
\<close>

definition py_isspace :: "char \<Rightarrow> bool" where
  "py_isspace c = ((of_char c :: nat) \<in> {9, 10, 11, 12, 13, 28, 29, 30, 31, 32, 133, 160})"

fun split_acc :: "string \<Rightarrow> string \<Rightarrow> string list" where
  "split_acc cur [] = (if cur = [] then [] else [cur])"
| "split_acc cur (c # cs) =
     (if py_isspace c then (if cur = [] then split_acc [] cs else cur # split_acc [] cs)
      else split_acc (cur @ [c]) cs)"

definition py_split :: "string \<Rightarrow> string list" where
  "py_split s = split_acc [] s"

section \<open>NumPy arrays\<close>

text \<open>
  The model library returns a NumPy array: a shape and the elements in row-major order.
  A well-formed array has as many elements as its shape says.
\<close>

record ndarray =
  shape :: "nat list"
  flat :: "real list"

definition wf_ndarray :: "ndarray \<Rightarrow> bool" where
  "wf_ndarray a = (length (flat a) = prod_list (shape a))"

text \<open>\<^verbatim>\<open>a.shape[i]\<close>: indexing the shape tuple past its end is an IndexError.\<close>

definition shape_at :: "ndarray \<Rightarrow> nat \<Rightarrow> error + nat" where
  "shape_at a i = (if i < length (shape a) then Inr (shape a ! i) else Inl IndexError)"

fun chunks :: "nat \<Rightarrow> nat \<Rightarrow> 'a list \<Rightarrow> 'a list list" where
  "chunks 0 k xs = []"
| "chunks (Suc n) k xs = take k xs # chunks n k (drop k xs)"

text \<open>
  \<^verbatim>\<open>a.tolist()\<close>: nested lists, one level per dimension; an array with no dimension is
  its one element.
\<close>

fun tolist_aux :: "nat list \<Rightarrow> real list \<Rightarrow> json" where
  "tolist_aux [] xs = (case xs of [] \<Rightarrow> JNull | x # _ \<Rightarrow> JFloat x)"
| "tolist_aux (n # ns) xs = JArr (map (tolist_aux ns) (chunks n (prod_list ns) xs))"

definition tolist :: "ndarray \<Rightarrow> json" where
  "tolist a = tolist_aux (shape a) (flat a)"

section \<open>The environment\<close>

text \<open>
  What the code calls and does not define: the constructor of the model
  (\<^verbatim>\<open>SentenceTransformer(name)\<close>), \<^verbatim>\<open>model.eval()\<close>, \<^verbatim>\<open>model.encode(texts,
  normalize_embeddings=flag)\<close> and \<^verbatim>\<open>torch.cuda.get_device_name(i)\<close>. They are
  parameters; each may fail with a message. The encoder receives whatever value the
  caller passes. Double-precision arithmetic is not the arithmetic of the reals, so the
  three float operations the code applies to clock readings are parameters too:
  subtraction, multiplication and \<^verbatim>\<open>round(x, ndigits)\<close>.
\<close>

record 'm env =
  SentenceTransformer :: "string \<Rightarrow> string + 'm"
  model_eval :: "'m \<Rightarrow> 'm"
  encode :: "'m \<Rightarrow> json \<Rightarrow> bool \<Rightarrow> string + ndarray"
  get_device_name :: "nat \<Rightarrow> string + string"
  float_sub :: "real \<Rightarrow> real \<Rightarrow> real"
  float_mul :: "real \<Rightarrow> real \<Rightarrow> real"
  float_round :: "real \<Rightarrow> int \<Rightarrow> real"

section \<open>EmbeddingService\<close>

text \<open>
  The attributes of an instance: the class attribute \<^verbatim>\<open>model_name\<close> and
  \<^verbatim>\<open>self.model\<close>, absent until \<^verbatim>\<open>load_model\<close> assigns it. A method takes the
  instance and returns its result (or the exception) with the instance as it leaves it.
\<close>

record 'm service =
  model_name :: string
  model :: "'m option"

definition EmbeddingService :: "'m service" where
  "EmbeddingService = \<lparr>model_name = ''NovaSearch/stella_en_400M_v5'', model = None\<rparr>"

definition load_model :: "'m env \<Rightarrow> 'm service \<Rightarrow> (error + json) \<times> 'm service" where
  "load_model env self =
     (case SentenceTransformer env (model_name self) of
        Inl e \<Rightarrow> (Inl (LibraryError e), self)
      | Inr m \<Rightarrow>
          (let self1 = self\<lparr>model := Some (model_eval env m)\<rparr>
           in case encode env (model_eval env m) (JArr [JStr ''warmup'']) True of
                Inl e \<Rightarrow> (Inl (LibraryError e), self1)
              | Inr _ \<Rightarrow>
                  (case get_device_name env 0 of
                     Inl e \<Rightarrow> (Inl (LibraryError e), self1)
                   | Inr _ \<Rightarrow> (Inr JNull, self1))))"

text \<open>
  \<open>embed\<close>: the two readings of \<^verbatim>\<open>time.perf_counter()\<close> are the pair \<open>clk\<close>. The
  entries of the returned dict are evaluated in the order written.
\<close>

definition embed ::
  "'m env \<Rightarrow> real \<times> real \<Rightarrow> json \<Rightarrow> bool \<Rightarrow> 'm service \<Rightarrow> (error + json) \<times> 'm service" where
  "embed env clk texts normalize_flag self =
     (case model self of
        None \<Rightarrow> (Inl AttributeError, self)
      | Some m \<Rightarrow>
          (case encode env m texts normalize_flag of
             Inl e \<Rightarrow> (Inl (LibraryError e), self)
           | Inr embeddings \<Rightarrow>
               (let elapsed_ms = float_mul env (float_sub env (snd clk) (fst clk)) 1000
                in case shape_at embeddings 1 of
                     Inl e \<Rightarrow> (Inl e, self)
                   | Inr d \<Rightarrow>
                       (case py_len texts of
                          Inl e \<Rightarrow> (Inl e, self)
                        | Inr n \<Rightarrow>
                            (Inr (JObj
                               [(''embeddings'', tolist embeddings),
                                (''dims'', JInt (int d)),
                                (''count'', JInt (int n)),
                                (''model'', JStr (model_name self)),
                                (''latency_ms'', JFloat (float_round env elapsed_ms 2))]),
                             self)))))"

definition health :: "'m env \<Rightarrow> 'm service \<Rightarrow> (error + json) \<times> 'm service" where
  "health env self =
     (case get_device_name env 0 of
        Inl e \<Rightarrow> (Inl (LibraryError e), self)
      | Inr g \<Rightarrow>
          (Inr (JObj
             [(''status'', JStr ''healthy''),
              (''model'', JStr (model_name self)),
              (''gpu'', JStr g),
              (''dims'', JInt 1024)]),
           self))"

section \<open>The web routes\<close>

text \<open>
  A route calls a method of the service remotely; \<open>self\<close> is the instance in the model
  container. \<^verbatim>\<open>EmbedRequest\<close> is the body of \<^verbatim>\<open>POST /embed\<close> after the framework
  has parsed it.
\<close>

record EmbedRequest =
  texts :: "string list"
  normalize_flag :: bool

definition web_health :: "'m env \<Rightarrow> 'm service \<Rightarrow> (error + json) \<times> 'm service" where
  "web_health env self = health env self"

definition web_embed ::
  "'m env \<Rightarrow> real \<times> real \<Rightarrow> EmbedRequest \<Rightarrow> 'm service \<Rightarrow> (error + json) \<times> 'm service" where
  "web_embed env clk req self =
     (if texts req = [] then (Inl (HTTPException 400 ''texts array required''), self)
      else if length (texts req) > 100 then
        (Inl (HTTPException 400 ''max 100 texts per request''), self)
      else embed env clk (JArr (map JStr (texts req))) (normalize_flag req) self)"

text \<open>
  \<^verbatim>\<open>POST /v1/embeddings\<close> takes the body as a plain dict. \<open>openai_input\<close> is the
  value of \<^verbatim>\<open>input_text\<close> after the string case has been wrapped.
\<close>

definition openai_input :: "(string \<rightharpoonup> json) \<Rightarrow> json" where
  "openai_input req =
     (let input_text = (case req ''input'' of None \<Rightarrow> JArr [] | Some v \<Rightarrow> v)
      in case input_text of JStr s \<Rightarrow> JArr [JStr s] | _ \<Rightarrow> input_text)"

definition openai_validate :: "(string \<rightharpoonup> json) \<Rightarrow> error + json" where
  "openai_validate req =
     (if \<not> py_truthy (openai_input req) then Inl (HTTPException 400 ''input required'')
      else Inr (openai_input req))"

text \<open>\<^verbatim>\<open>sum(len(t.split()) for t in input_text)\<close> over the items of the loop.\<close>

fun sum_split_len :: "json list \<Rightarrow> error + int" where
  "sum_split_len [] = Inr 0"
| "sum_split_len (t # ts) =
     (case t of
        JStr s \<Rightarrow>
          (case sum_split_len ts of
             Inl e \<Rightarrow> Inl e
           | Inr n \<Rightarrow> Inr (int (length (py_split s)) + n))
      | _ \<Rightarrow> Inl AttributeError)"

definition usage_tokens :: "json \<Rightarrow> error + int" where
  "usage_tokens input_text =
     (case py_iter input_text of Inl e \<Rightarrow> Inl e | Inr ts \<Rightarrow> sum_split_len ts)"

definition embedding_item :: "nat \<times> json \<Rightarrow> json" where
  "embedding_item p =
     JObj [(''object'', JStr ''embedding''), (''index'', JInt (int (fst p))),
           (''embedding'', snd p)]"

definition openai_format :: "json \<Rightarrow> json \<Rightarrow> error + json" where
  "openai_format input_text result =
     (case py_getitem result ''model'' of
        Inl e \<Rightarrow> Inl e
      | Inr mdl \<Rightarrow>
          (case py_getitem result ''embeddings'' of
             Inl e \<Rightarrow> Inl e
           | Inr embs \<Rightarrow>
               (case py_iter embs of
                  Inl e \<Rightarrow> Inl e
                | Inr es \<Rightarrow>
                    (case usage_tokens input_text of
                       Inl e \<Rightarrow> Inl e
                     | Inr p \<Rightarrow>
                         (case usage_tokens input_text of
                            Inl e \<Rightarrow> Inl e
                          | Inr t \<Rightarrow>
                              Inr (JObj
                                [(''object'', JStr ''list''),
                                 (''model'', mdl),
                                 (''data'', JArr (map embedding_item (zip [0..<length es] es))),
                                 (''usage'', JObj [(''prompt_tokens'', JInt p),
                                                   (''total_tokens'', JInt t)])]))))))"

definition openai_compatible ::
  "'m env \<Rightarrow> real \<times> real \<Rightarrow> (string \<rightharpoonup> json) \<Rightarrow> 'm service \<Rightarrow> (error + json) \<times> 'm service" where
  "openai_compatible env clk req self =
     (case openai_validate req of
        Inl e \<Rightarrow> (Inl e, self)
      | Inr input_text \<Rightarrow>
          (case embed env clk input_text True self of
             (Inl e, self1) \<Rightarrow> (Inl e, self1)
           | (Inr result, self1) \<Rightarrow> (openai_format input_text result, self1)))"

text \<open>The scheduled function: one remote call of \<open>health\<close>, its result printed.\<close>

definition keep_warm :: "'m env \<Rightarrow> 'm service \<Rightarrow> (error + json) \<times> 'm service" where
  "keep_warm env self =
     (case health env self of
        (Inl e, self1) \<Rightarrow> (Inl e, self1)
      | (Inr result, self1) \<Rightarrow> (Inr JNull, self1))"

section \<open>Requests over time\<close>

text \<open>
  Everything that can be asked of a running container: the two methods, the three
  routes and the scheduled function. \<open>run\<close> serves a sequence of them, each on the
  instance the one before left behind, and collects the results.
\<close>

datatype operation =
    Embed "real \<times> real" json bool
  | Health
  | GetHealth
  | PostEmbed "real \<times> real" EmbedRequest
  | PostV1Embeddings "real \<times> real" "string \<rightharpoonup> json"
  | KeepWarm

fun perform :: "'m env \<Rightarrow> operation \<Rightarrow> 'm service \<Rightarrow> (error + json) \<times> 'm service" where
  "perform env (Embed clk ts nf) self = embed env clk ts nf self"
| "perform env Health self = health env self"
| "perform env GetHealth self = web_health env self"
| "perform env (PostEmbed clk req) self = web_embed env clk req self"
| "perform env (PostV1Embeddings clk req) self = openai_compatible env clk req self"
| "perform env KeepWarm self = keep_warm env self"

fun run :: "'m env \<Rightarrow> operation list \<Rightarrow> 'm service \<Rightarrow> (error + json) list \<times> 'm service" where
  "run env [] self = ([], self)"
| "run env (op # ops) self =
     (case perform env op self of
        (r, self1) \<Rightarrow> (case run env ops self1 of (rs, self2) \<Rightarrow> (r # rs, self2)))"

section \<open>Specification vocabulary\<close>

text \<open>
  What the model library promises for a non-empty list of strings: a well-formed
  two-dimensional array with one row per string.
\<close>

definition encoder_contract :: "'m env \<Rightarrow> bool" where
  "encoder_contract env =
     (\<forall>m ts nf a. ts \<noteq> [] \<and> encode env m (JArr (map JStr ts)) nf = Inr a
        \<longrightarrow> wf_ndarray a \<and> length (shape a) = 2 \<and> hd (shape a) = length ts)"

text \<open>
  The Euclidean norm of a vector, and what the model library promises when asked to
  normalise one string: a well-formed array of one row whose norm is within \<open>eps\<close> of 1.
\<close>

definition l2_norm :: "real list \<Rightarrow> real" where
  "l2_norm v = sqrt (sum_list (map (\<lambda>x. x * x) v))"

definition unit_norm_contract :: "'m env \<Rightarrow> real \<Rightarrow> bool" where
  "unit_norm_contract env eps =
     (\<forall>m t a. encode env m (JArr [JStr t]) True = Inr a
        \<longrightarrow> wf_ndarray a \<and> length (shape a) = 2 \<and> hd (shape a) = 1 \<and>
            \<bar>l2_norm (flat a) - 1\<bar> \<le> eps)"

text \<open>
  The values of the \<^verbatim>\<open>input\<close> field that \<^verbatim>\<open>POST /v1/embeddings\<close> rejects; \<open>None\<close> is
  the absent field.
\<close>

definition rejected_inputs :: "json option set" where
  "rejected_inputs =
     {None, Some JNull, Some (JBool False), Some (JInt 0), Some (JFloat 0), Some (JArr []),
      Some (JObj [])}"

text \<open>
  The specification's wording, "input empty", read on the request: the field is absent
  or null, or it is a string, a list or a dict with nothing in it.
\<close>

definition input_is_empty :: "(string \<rightharpoonup> json) \<Rightarrow> bool" where
  "input_is_empty req =
     (case req ''input'' of
        None \<Rightarrow> True
      | Some JNull \<Rightarrow> True
      | Some (JStr s) \<Rightarrow> s = []
      | Some (JArr xs) \<Rightarrow> xs = []
      | Some (JObj kvs) \<Rightarrow> kvs = []
      | Some _ \<Rightarrow> False)"

text \<open>
  A small environment to run the definitions on: a model with two dimensions whose
  encoder accepts lists only and gives every item the row \<open>(0, 1)\<close>, or \<open>(0, 2)\<close>
  when normalisation is off. Its float operations are those of the reals and its
  rounding changes nothing: the clock readings used with it are a whole number of
  milliseconds apart.
\<close>

definition test_env :: "unit env" where
  "test_env =
     \<lparr>SentenceTransformer = (\<lambda>name. Inr ()),
      model_eval = (\<lambda>m. m),
      encode = (\<lambda>m t nf. case t of
                  JArr xs \<Rightarrow>
                    Inr \<lparr>shape = [length xs, 2],
                         flat = concat (map (\<lambda>x. if nf then [0, 1] else [0, 2]) xs)\<rparr>
                | _ \<Rightarrow> Inl ''unsupported input''),
      get_device_name = (\<lambda>i. Inr ''Tesla T4''),
      float_sub = (\<lambda>x y. x - y),
      float_mul = (\<lambda>x y. x * y),
      float_round = (\<lambda>x ndigits. x)\<rparr>"

definition loaded :: "unit service" where
  "loaded = \<lparr>model_name = ''NovaSearch/stella_en_400M_v5'', model = Some ()\<rparr>"

text \<open>A request with two texts and the response \<open>test_env\<close> gives to it.\<close>

definition test_request :: "string \<rightharpoonup> json" where
  "test_request = [''input'' \<mapsto> JArr [JStr ''hello world'', JStr ''b'']]"

definition test_response :: json where
  "test_response =
     JObj [(''object'', JStr ''list''),
           (''model'', JStr ''NovaSearch/stella_en_400M_v5''),
           (''data'',
            JArr [JObj [(''object'', JStr ''embedding''), (''index'', JInt 0),
                        (''embedding'', JArr [JFloat 0, JFloat 1])],
                  JObj [(''object'', JStr ''embedding''), (''index'', JInt 1),
                        (''embedding'', JArr [JFloat 0, JFloat 1])]]),
           (''usage'', JObj [(''prompt_tokens'', JInt 3), (''total_tokens'', JInt 3)])]"

section \<open>Which exceptions can occur\<close>

lemma py_len_error: "py_len j = Inl e \<Longrightarrow> e = TypeError"
  by (cases j) auto

lemma py_iter_error: "py_iter j = Inl e \<Longrightarrow> e = TypeError"
  by (cases j) auto

lemma py_getitem_error: "py_getitem j k = Inl e \<Longrightarrow> e = KeyError \<or> e = TypeError"
  by (cases j) (auto split: option.splits)

lemma shape_at_error: "shape_at a i = Inl e \<Longrightarrow> e = IndexError"
  by (auto simp: shape_at_def split: if_splits)

lemma sum_split_len_error: "sum_split_len ts = Inl e \<Longrightarrow> e = AttributeError"
  by (induction ts arbitrary: e) (auto split: json.splits sum.splits)

lemma usage_tokens_error: "usage_tokens j = Inl e \<Longrightarrow> e = TypeError \<or> e = AttributeError"
  by (auto simp: usage_tokens_def split: sum.splits dest: py_iter_error sum_split_len_error)

lemma embed_error:
  "embed env clk t nf self = (Inl e, s) \<Longrightarrow>
     e = AttributeError \<or> e = IndexError \<or> e = TypeError \<or> (\<exists>msg. e = LibraryError msg)"
  by (auto simp: embed_def Let_def split: option.splits sum.splits
      dest: py_len_error shape_at_error)

lemma openai_format_error:
  "openai_format inp r = Inl e \<Longrightarrow> e = KeyError \<or> e = TypeError \<or> e = AttributeError"
  by (auto simp: openai_format_def split: sum.splits
      dest: py_getitem_error py_iter_error usage_tokens_error)

section \<open>POST /embed\<close>

text \<open>
  C1. For every parsed body of \<^verbatim>\<open>POST /embed\<close> the route raises HTTP 400 if and only
  if \<open>texts\<close> is empty or has more than 100 elements. A body with exactly 100 texts is
  therefore not rejected.
\<close>

theorem web_embed_400_iff:
  "(\<exists>msg. fst (web_embed env clk req self) = Inl (HTTPException 400 msg))
     \<longleftrightarrow> (texts req = [] \<or> 100 < length (texts req))"
  by (cases "embed env clk (JArr (map JStr (texts req))) (normalize_flag req) self")
    (auto simp: web_embed_def dest: embed_error)

theorem web_embed_400_iff_witness:
  "\<not> (\<exists>msg. fst (web_embed test_env (0, 1)
        \<lparr>texts = replicate 100 ''a'', normalize_flag = True\<rparr> loaded) = Inl (HTTPException 400 msg))"
  using web_embed_400_iff [of test_env "(0, 1)"
      "\<lparr>texts = replicate 100 ''a'', normalize_flag = True\<rparr>" loaded]
  by simp

section \<open>POST /v1/embeddings\<close>

lemma openai_input_truthy:
  "py_truthy (openai_input req) \<longleftrightarrow> req ''input'' \<notin> rejected_inputs"
proof (cases "req ''input''")
  case None
  then show ?thesis by (simp add: openai_input_def rejected_inputs_def)
next
  case (Some v)
  then show ?thesis by (cases v) (auto simp: openai_input_def rejected_inputs_def)
qed

lemma openai_compatible_unfold:
  "openai_compatible env clk req self =
     (if req ''input'' \<in> rejected_inputs then (Inl (HTTPException 400 ''input required''), self)
      else (case embed env clk (openai_input req) True self of
              (Inl e, self1) \<Rightarrow> (Inl e, self1)
            | (Inr result, self1) \<Rightarrow> (openai_format (openai_input req) result, self1)))"
  by (simp add: openai_compatible_def openai_validate_def openai_input_truthy)

lemma openai_passed_not_http:
  "(case embed env clk inp True self of
      (Inl e, self1) \<Rightarrow> (Inl e, self1)
    | (Inr result, self1) \<Rightarrow> (openai_format inp result, self1)) \<noteq> (Inl (HTTPException c msg), s)"
  by (auto split: prod.splits sum.splits dest: openai_format_error embed_error)

text \<open>The route reads the model name and the vectors of the result, not the latency.\<close>

lemma openai_format_fields:
  "openai_format inp (JObj [(''embeddings'', e), (''dims'', d), (''count'', n), (''model'', m),
       (''latency_ms'', l)]) =
   openai_format inp (JObj [(''embeddings'', e), (''dims'', d), (''count'', n), (''model'', m),
       (''latency_ms'', l')])"
  by (simp add: openai_format_def)

text \<open>
  What the outcome of the route depends on: the wrapped input, and the encoder with
  normalisation on. Neither the clock nor the rest of the body matters.
\<close>

lemma openai_compatible_depends:
  assumes "\<forall>m t. encode env' m t True = encode env m t True"
    and "openai_input req' = openai_input req"
  shows "openai_compatible env' clk' req' self = openai_compatible env clk req self"
proof -
  have v: "openai_validate req' = openai_validate req"
    using assms(2) by (simp add: openai_validate_def)
  show ?thesis
  proof (cases "openai_validate req")
    case (Inl e)
    with v show ?thesis by (simp add: openai_compatible_def)
  next
    case (Inr inp)
    with v assms(1) show ?thesis
      by (simp add: openai_compatible_def embed_def Let_def openai_format_fields
          split: option.splits sum.splits)
  qed
qed

text \<open>
  C3. For every string \<open>s\<close>, a request whose input is \<open>s\<close> and a request whose input is
  the one-element array \<open>[s]\<close> get the same outcome: the same exception or the same
  response body, whatever the other fields of the body and whenever the two are served.
\<close>

theorem openai_string_as_singleton:
  "openai_compatible env clk (req(''input'' \<mapsto> JStr s)) self =
   openai_compatible env clk' (req(''input'' \<mapsto> JArr [JStr s])) self"
  by (rule openai_compatible_depends) (simp_all add: openai_input_def)

theorem openai_string_as_singleton_witness:
  "openai_compatible test_env (0, 1) [''input'' \<mapsto> JStr ''hello world''] loaded =
   openai_compatible test_env (5, 7) [''input'' \<mapsto> JArr [JStr ''hello world'']] loaded"
  using openai_string_as_singleton [of test_env "(0, 1)" Map.empty "''hello world''" loaded "(5, 7)"]
  by simp

text \<open>
  C4, as the code has it. The route raises HTTP 400 exactly when the input field is
  absent or holds null, false, zero, an empty array or an empty object. A string is
  never rejected, the empty string included. In every other case the route calls
  \<open>embed\<close> on the wrapped input with normalisation on and formats its result.
\<close>

theorem openai_400_iff:
  "((\<exists>msg. fst (openai_compatible env clk req self) = Inl (HTTPException 400 msg))
      \<longleftrightarrow> req ''input'' \<in> rejected_inputs) \<and>
   openai_compatible env clk req self =
     (if req ''input'' \<in> rejected_inputs then (Inl (HTTPException 400 ''input required''), self)
      else (case embed env clk (openai_input req) True self of
              (Inl e, self1) \<Rightarrow> (Inl e, self1)
            | (Inr result, self1) \<Rightarrow> (openai_format (openai_input req) result, self1)))"
proof -
  have "\<not> (\<exists>msg. fst (openai_compatible env clk req self) = Inl (HTTPException 400 msg))"
    if "req ''input'' \<notin> rejected_inputs"
  proof
    assume "\<exists>msg. fst (openai_compatible env clk req self) = Inl (HTTPException 400 msg)"
    then obtain msg where "fst (openai_compatible env clk req self) = Inl (HTTPException 400 msg)" ..
    then obtain s where "openai_compatible env clk req self = (Inl (HTTPException 400 msg), s)"
      by (cases "openai_compatible env clk req self") simp
    with that show False
      by (simp add: openai_compatible_unfold openai_passed_not_http)
  qed
  moreover have "\<exists>msg. fst (openai_compatible env clk req self) = Inl (HTTPException 400 msg)"
    if "req ''input'' \<in> rejected_inputs"
    using that by (simp add: openai_compatible_unfold)
  ultimately show ?thesis
    using openai_compatible_unfold [of env clk req self] by blast
qed

theorem openai_400_iff_witness:
  "(\<exists>msg. fst (openai_compatible test_env (0, 1) Map.empty loaded) = Inl (HTTPException 400 msg)) \<and>
   \<not> (\<exists>msg. fst (openai_compatible test_env (0, 1) [''input'' \<mapsto> JStr ''''] loaded)
          = Inl (HTTPException 400 msg))"
  using openai_400_iff [THEN conjunct1, of test_env "(0, 1)" Map.empty loaded]
    openai_400_iff [THEN conjunct1, of test_env "(0, 1)" "[''input'' \<mapsto> JStr '''']" loaded]
  by (simp add: rejected_inputs_def)

text \<open>
  C4, as the claim words it, fails in both directions: the empty string is an empty
  input and passes validation, and the JSON value false is not an empty input and is
  rejected.
\<close>

theorem openai_400_iff_empty_counterexample:
  "input_is_empty [''input'' \<mapsto> JStr ''''] \<and>
   openai_validate [''input'' \<mapsto> JStr ''''] = Inr (JArr [JStr '''']) \<and>
   \<not> input_is_empty [''input'' \<mapsto> JBool False] \<and>
   openai_validate [''input'' \<mapsto> JBool False] = Inl (HTTPException 400 ''input required'')"
  by (simp add: input_is_empty_def openai_validate_def openai_input_def)

text \<open>
  C9. For every request, whatever field other than \<open>input\<close> the body adds, changes or
  removes, and whatever the encoder would do with normalisation off, the outcome of the
  route is the validation error, or else the outcome of \<open>embed\<close> called on the
  validated input with normalisation on, formatted.
\<close>

theorem openai_always_normalizes:
  assumes "\<forall>m t. encode env' m t True = encode env m t True" and "k \<noteq> ''input''"
  shows "openai_compatible env' clk (req(k := v)) self = openai_compatible env clk req self \<and>
         openai_compatible env' clk (req(k := v)) self =
           (case openai_validate req of
              Inl e \<Rightarrow> (Inl e, self)
            | Inr input_text \<Rightarrow>
                (case embed env clk input_text True self of
                   (Inl e, self1) \<Rightarrow> (Inl e, self1)
                 | (Inr result, self1) \<Rightarrow> (openai_format input_text result, self1)))"
proof -
  have same: "openai_compatible env' clk (req(k := v)) self = openai_compatible env clk req self"
    using assms by (intro openai_compatible_depends) (simp_all add: openai_input_def)
  have "openai_compatible env clk req self =
           (case openai_validate req of
              Inl e \<Rightarrow> (Inl e, self)
            | Inr input_text \<Rightarrow>
                (case embed env clk input_text True self of
                   (Inl e, self1) \<Rightarrow> (Inl e, self1)
                 | (Inr result, self1) \<Rightarrow> (openai_format input_text result, self1)))"
    by (simp add: openai_compatible_def)
  with same show ?thesis
    by simp
qed

theorem openai_always_normalizes_witness:
  "(\<forall>m t. encode (test_env\<lparr>encode := \<lambda>m t nf. encode test_env m t True\<rparr>) m t True
             = encode test_env m t True) \<and>
   ''normalize'' \<noteq> ''input'' \<and>
   openai_compatible (test_env\<lparr>encode := \<lambda>m t nf. encode test_env m t True\<rparr>) (0, 1)
       ([''input'' \<mapsto> JStr ''hi''](''normalize'' := Some (JBool False))) loaded =
   openai_compatible test_env (0, 1) [''input'' \<mapsto> JStr ''hi''] loaded"
  using openai_always_normalizes [THEN conjunct1, of "test_env\<lparr>encode := \<lambda>m t nf. encode test_env m t True\<rparr>"
      test_env "''normalize''" "(0, 1)" "[''input'' \<mapsto> JStr ''hi'']" "Some (JBool False)" loaded]
  by simp

text \<open>
  C10. The empty string as input passes validation as the one-element list holding
  it. The route raises no HTTP exception for it and returns what \<open>embed\<close> makes of
  that list, formatted.
\<close>

theorem openai_empty_string_accepted:
  "openai_validate (req(''input'' \<mapsto> JStr '''')) = Inr (JArr [JStr '''']) \<and>
   (\<forall>c msg. fst (openai_compatible env clk (req(''input'' \<mapsto> JStr '''')) self)
        \<noteq> Inl (HTTPException c msg)) \<and>
   openai_compatible env clk (req(''input'' \<mapsto> JStr '''')) self =
     (case embed env clk (JArr [JStr '''']) True self of
        (Inl e, self1) \<Rightarrow> (Inl e, self1)
      | (Inr result, self1) \<Rightarrow> (openai_format (JArr [JStr '''']) result, self1))"
proof -
  have v: "openai_validate (req(''input'' \<mapsto> JStr '''')) = Inr (JArr [JStr ''''])"
    by (simp add: openai_validate_def openai_input_def)
  have eq: "openai_compatible env clk (req(''input'' \<mapsto> JStr '''')) self =
     (case embed env clk (JArr [JStr '''']) True self of
        (Inl e, self1) \<Rightarrow> (Inl e, self1)
      | (Inr result, self1) \<Rightarrow> (openai_format (JArr [JStr '''']) result, self1))"
    by (simp add: openai_compatible_def v)
  have "fst (openai_compatible env clk (req(''input'' \<mapsto> JStr '''')) self)
          \<noteq> Inl (HTTPException c msg)" for c msg
    using openai_passed_not_http [where env = env and clk = clk and inp = "JArr [JStr '''']"
        and self = self and c = c and msg = msg]
    by (cases "openai_compatible env clk (req(''input'' \<mapsto> JStr '''')) self") (auto simp: eq)
  with v eq show ?thesis by blast
qed

theorem openai_empty_string_accepted_witness:
  "openai_compatible test_env (0, 1) [''input'' \<mapsto> JStr ''''] loaded =
     (Inr (JObj
        [(''object'', JStr ''list''),
         (''model'', JStr ''NovaSearch/stella_en_400M_v5''),
         (''data'',
          JArr [JObj [(''object'', JStr ''embedding''), (''index'', JInt 0),
                      (''embedding'', JArr [JFloat 0, JFloat 1])]]),
         (''usage'', JObj [(''prompt_tokens'', JInt 0), (''total_tokens'', JInt 0)])]),
      loaded)"
  using openai_empty_string_accepted [of Map.empty test_env "(0, 1)" loaded]
  by (simp add: embed_def test_env_def loaded_def shape_at_def tolist_def openai_format_def
      usage_tokens_def py_split_def embedding_item_def eval_nat_numeral)

section \<open>Arrays as nested lists\<close>

lemma length_chunks: "length (chunks n k xs) = n"
  by (induction n arbitrary: xs) auto

lemma chunks_nth: "i < n \<Longrightarrow> chunks n k xs ! i = take k (drop (i * k) xs)"
proof (induction n arbitrary: xs i)
  case 0
  then show ?case by simp
next
  case (Suc n)
  then show ?case by (cases i) (auto simp: add.commute)
qed

lemma chunks_length_each:
  "n * k \<le> length xs \<Longrightarrow> c \<in> set (chunks n k xs) \<Longrightarrow> length c = k"
proof (induction n arbitrary: xs)
  case 0
  then show ?case by simp
next
  case (Suc n)
  from Suc.prems(1) have "n * k \<le> length (drop k xs)" by simp
  with Suc.IH [of "drop k xs"] Suc.prems show ?case by auto
qed

lemma chunks_singletons: "length xs = n \<Longrightarrow> chunks n (Suc 0) xs = map (\<lambda>x. [x]) xs"
proof (induction n arbitrary: xs)
  case 0
  then show ?case by simp
next
  case (Suc n)
  then show ?case by (cases xs) auto
qed

lemma tolist_aux_vector: "length xs = k \<Longrightarrow> tolist_aux [k] xs = JArr (map JFloat xs)"
  by (simp add: chunks_singletons comp_def)

lemma tolist_matrix:
  assumes "wf_ndarray a" and "shape a = [n, d]"
  shows "tolist a = JArr (map (\<lambda>row. JArr (map JFloat row)) (chunks n d (flat a)))"
proof -
  have "length (flat a) = n * d"
    using assms by (simp add: wf_ndarray_def)
  then have "tolist_aux [d] c = JArr (map JFloat c)" if "c \<in> set (chunks n d (flat a))" for c
    using that chunks_length_each [of n d "flat a" c] by (simp only: tolist_aux_vector)
  then show ?thesis
    using assms(2) by (simp add: tolist_def)
qed

lemma shape_two: "length s = 2 \<Longrightarrow> s = [hd s, s ! 1]"
  by (cases s; cases "tl s") auto

lemma tolist_is_list: "shape a \<noteq> [] \<Longrightarrow> \<exists>es. tolist a = JArr es"
  by (cases "shape a") (auto simp: tolist_def)

lemma tolist_one_row:
  assumes "wf_ndarray a" and "length (shape a) = 2" and "hd (shape a) = 1"
  shows "tolist a = JArr [JArr (map JFloat (flat a))]"
proof -
  define d where "d = shape a ! 1"
  have sh: "shape a = [1, d]"
    using shape_two [OF assms(2)] assms(3) d_def by simp
  have len: "length (flat a) = d"
    using assms(1) by (simp add: wf_ndarray_def sh)
  from tolist_matrix [OF assms(1) sh] len show ?thesis
    by simp
qed

section \<open>The result of embed\<close>

lemma length_concat_const:
  "(\<And>x. length (f x) = k) \<Longrightarrow> length (concat (map f xs)) = length xs * k"
  by (induction xs) auto

lemma test_env_contract: "encoder_contract test_env"
  by (auto simp: encoder_contract_def test_env_def wf_ndarray_def length_concat_const)

text \<open>
  C2. When the encoder keeps the library's contract, every successful call of \<open>embed\<close>
  on a non-empty list of \<open>N\<close> strings returns a dict whose \<open>count\<close> is \<open>N\<close>, whose
  \<open>dims\<close> is \<open>d\<close>, where \<open>(N, d)\<close> is the shape of the encoder's array, and whose
  \<open>embeddings\<close> is a list of \<open>N\<close> lists of \<open>d\<close> floats: the \<open>i\<close>-th is the whole
  \<open>i\<close>-th row of the encoder's array, so one vector per input, in the same order.
\<close>

theorem embed_one_vector_per_text:
  assumes "encoder_contract env" and "ts \<noteq> []"
    and "fst (embed env clk (JArr (map JStr ts)) nf self) = Inr result"
  shows "\<exists>m a d rows.
           model self = Some m \<and> encode env m (JArr (map JStr ts)) nf = Inr a \<and>
           shape a = [length ts, d] \<and>
           rows = chunks (length ts) d (flat a) \<and>
           py_getitem result ''count'' = Inr (JInt (int (length ts))) \<and>
           py_getitem result ''dims'' = Inr (JInt (int d)) \<and>
           py_getitem result ''embeddings'' = Inr (JArr (map (\<lambda>row. JArr (map JFloat row)) rows)) \<and>
           length rows = length ts \<and>
           (\<forall>row \<in> set rows. length row = d) \<and>
           (\<forall>i < length ts. rows ! i = take d (drop (i * d) (flat a)))"
proof -
  from assms(3) obtain m a where m: "model self = Some m"
    and a: "encode env m (JArr (map JStr ts)) nf = Inr a"
    by (auto simp: embed_def Let_def split: option.splits sum.splits)
  from assms(1,2) a have wf: "wf_ndarray a" and two: "length (shape a) = 2"
    and rows: "hd (shape a) = length ts"
    unfolding encoder_contract_def by blast+
  define d where "d = shape a ! 1"
  have sh: "shape a = [length ts, d]"
    using shape_two [OF two] rows d_def by simp
  have len: "length (flat a) = length ts * d"
    using wf sh by (simp add: wf_ndarray_def)
  have res: "result = JObj
       [(''embeddings'', tolist a), (''dims'', JInt (int d)), (''count'', JInt (int (length ts))),
        (''model'', JStr (model_name self)),
        (''latency_ms'',
         JFloat (float_round env (float_mul env (float_sub env (snd clk) (fst clk)) 1000) 2))]"
    using assms(3) m a sh by (simp add: embed_def Let_def shape_at_def)
  have "\<forall>row \<in> set (chunks (length ts) d (flat a)). length row = d"
    using chunks_length_each [of "length ts" d "flat a"] len by simp
  moreover have "\<forall>i < length ts. chunks (length ts) d (flat a) ! i = take d (drop (i * d) (flat a))"
    by (simp add: chunks_nth)
  ultimately show ?thesis
    using m a sh res tolist_matrix [OF wf sh] by (simp add: length_chunks)
qed

theorem embed_one_vector_per_text_witness:
  "encoder_contract test_env \<and> [''a'', ''b c''] \<noteq> [] \<and>
   fst (embed test_env (0, 1 / 8) (JArr (map JStr [''a'', ''b c''])) True loaded) =
     Inr (JObj [(''embeddings'', JArr [JArr [JFloat 0, JFloat 1], JArr [JFloat 0, JFloat 1]]),
                (''dims'', JInt 2), (''count'', JInt 2),
                (''model'', JStr ''NovaSearch/stella_en_400M_v5''),
                (''latency_ms'', JFloat 125)]) \<and>
   (\<exists>m a d rows.
      model loaded = Some m \<and> encode test_env m (JArr (map JStr [''a'', ''b c''])) True = Inr a \<and>
      shape a = [length [''a'', ''b c''], d] \<and>
      rows = chunks (length [''a'', ''b c'']) d (flat a) \<and>
      py_getitem (JObj [(''embeddings'', JArr [JArr [JFloat 0, JFloat 1], JArr [JFloat 0, JFloat 1]]),
                (''dims'', JInt 2), (''count'', JInt 2),
                (''model'', JStr ''NovaSearch/stella_en_400M_v5''),
                (''latency_ms'', JFloat 125)]) ''count'' = Inr (JInt (int (length [''a'', ''b c'']))))"
proof -
  have e: "fst (embed test_env (0, 1 / 8) (JArr (map JStr [''a'', ''b c''])) True loaded) =
     Inr (JObj [(''embeddings'', JArr [JArr [JFloat 0, JFloat 1], JArr [JFloat 0, JFloat 1]]),
                (''dims'', JInt 2), (''count'', JInt 2),
                (''model'', JStr ''NovaSearch/stella_en_400M_v5''),
                (''latency_ms'', JFloat 125)])"
    by (simp add: embed_def test_env_def loaded_def shape_at_def tolist_def eval_nat_numeral)
  have n: "[''a'', ''b c''] \<noteq> []" by simp
  from embed_one_vector_per_text [OF test_env_contract n e] e test_env_contract show ?thesis
    by auto
qed

section \<open>The response of POST /v1/embeddings\<close>

lemma embedding_items:
  "length (map embedding_item (zip [0..<length es] es)) = length es \<and>
   (\<forall>i < length es. map embedding_item (zip [0..<length es] es) ! i =
      JObj [(''object'', JStr ''embedding''), (''index'', JInt (int i)), (''embedding'', es ! i)])"
  by (simp add: embedding_item_def)

text \<open>
  C6. Every successful response of \<^verbatim>\<open>POST /v1/embeddings\<close> is a dict with exactly the
  keys \<open>object\<close>, \<open>model\<close>, \<open>data\<close> and \<open>usage\<close>: \<open>object\<close> is \<open>list\<close>, \<open>model\<close> is the
  model name of the \<open>embed\<close> result, the \<open>i\<close>-th entry of \<open>data\<close> has \<open>object\<close>
  \<open>embedding\<close>, \<open>index\<close> \<open>i\<close> and as \<open>embedding\<close> the \<open>i\<close>-th vector of the \<open>embed\<close>
  result, and \<open>usage\<close> holds \<open>prompt_tokens\<close> and \<open>total_tokens\<close>, both the number of
  whitespace-separated words of the input.
\<close>

theorem openai_response_format:
  assumes "fst (openai_compatible env clk req self) = Inr resp"
  shows "\<exists>input_text result es n items.
           openai_validate req = Inr input_text \<and>
           fst (embed env clk input_text True self) = Inr result \<and>
           py_getitem result ''embeddings'' = Inr (JArr es) \<and>
           py_getitem result ''model'' = Inr (JStr (model_name self)) \<and>
           usage_tokens input_text = Inr n \<and>
           resp = JObj [(''object'', JStr ''list''),
                        (''model'', JStr (model_name self)),
                        (''data'', JArr items),
                        (''usage'', JObj [(''prompt_tokens'', JInt n), (''total_tokens'', JInt n)])] \<and>
           length items = length es \<and>
           (\<forall>i < length es. items ! i =
              JObj [(''object'', JStr ''embedding''), (''index'', JInt (int i)),
                    (''embedding'', es ! i)])"
proof -
  from assms obtain inp where v: "openai_validate req = Inr inp"
    by (cases "openai_validate req") (auto simp: openai_compatible_def)
  with assms obtain result s1 where e: "embed env clk inp True self = (Inr result, s1)"
    and f: "openai_format inp result = Inr resp"
    by (auto simp: openai_compatible_def split: prod.splits sum.splits)
  from e obtain m a d k where a: "encode env m inp True = Inr a" and d: "shape_at a 1 = Inr d"
    and res: "result = JObj
       [(''embeddings'', tolist a), (''dims'', JInt (int d)), (''count'', JInt (int k)),
        (''model'', JStr (model_name self)),
        (''latency_ms'',
         JFloat (float_round env (float_mul env (float_sub env (snd clk) (fst clk)) 1000) 2))]"
    by (auto simp: embed_def Let_def split: option.splits sum.splits)
  from d have "shape a \<noteq> []"
    by (auto simp: shape_at_def split: if_splits)
  then obtain es where es: "tolist a = JArr es"
    using tolist_is_list by blast
  from f res es obtain n where n: "usage_tokens inp = Inr n"
    and resp: "resp = JObj [(''object'', JStr ''list''),
                        (''model'', JStr (model_name self)),
                        (''data'', JArr (map embedding_item (zip [0..<length es] es))),
                        (''usage'', JObj [(''prompt_tokens'', JInt n), (''total_tokens'', JInt n)])]"
    by (auto simp: openai_format_def split: sum.splits)
  from v e res es n resp embedding_items [of es] show ?thesis
    by (intro exI [of _ inp] exI [of _ result] exI [of _ es] exI [of _ n]
        exI [of _ "map embedding_item (zip [0..<length es] es)"]) simp
qed

theorem openai_response_format_witness:
  "fst (openai_compatible test_env (0, 1) test_request loaded) = Inr test_response \<and>
   (\<exists>input_text result es n items.
      openai_validate test_request = Inr input_text \<and>
      fst (embed test_env (0, 1) input_text True loaded) = Inr result \<and>
      py_getitem result ''embeddings'' = Inr (JArr es) \<and>
      py_getitem result ''model'' = Inr (JStr (model_name loaded)) \<and>
      usage_tokens input_text = Inr n \<and>
      test_response =
        JObj [(''object'', JStr ''list''),
              (''model'', JStr (model_name loaded)),
              (''data'', JArr items),
              (''usage'', JObj [(''prompt_tokens'', JInt n), (''total_tokens'', JInt n)])] \<and>
      length items = length es \<and>
      (\<forall>i < length es. items ! i =
         JObj [(''object'', JStr ''embedding''), (''index'', JInt (int i)),
               (''embedding'', es ! i)]))"
proof -
  have e: "fst (openai_compatible test_env (0, 1) test_request loaded) = Inr test_response"
    by (simp add: openai_compatible_def openai_validate_def openai_input_def embed_def
        test_env_def loaded_def shape_at_def tolist_def openai_format_def usage_tokens_def
        py_split_def py_isspace_def embedding_item_def eval_nat_numeral test_request_def
        test_response_def)
  from e openai_response_format [OF e] show ?thesis
    by (rule conjI)
qed

section \<open>The instance across requests\<close>

lemma embed_self: "snd (embed env clk t nf self) = self"
  by (simp add: embed_def Let_def split: option.splits sum.splits)

lemma health_self: "snd (health env self) = self"
  by (simp add: health_def split: sum.splits)

lemma web_embed_self: "snd (web_embed env clk req self) = self"
  by (simp add: web_embed_def embed_self)

lemma openai_compatible_self: "snd (openai_compatible env clk req self) = self"
proof (cases "openai_validate req")
  case (Inl e)
  then show ?thesis by (simp add: openai_compatible_def)
next
  case (Inr inp)
  then show ?thesis
    using embed_self [of env clk inp True self]
    by (cases "embed env clk inp True self") (auto simp: openai_compatible_def split: sum.splits)
qed

lemma keep_warm_self: "snd (keep_warm env self) = self"
  using health_self [of env self]
  by (cases "health env self") (auto simp: keep_warm_def split: sum.splits)

lemma perform_self: "snd (perform env op self) = self"
  by (cases op)
    (simp_all add: embed_self health_self web_health_def web_embed_self openai_compatible_self
      keep_warm_self)

lemma run_self: "run env ops self = (map (\<lambda>op. fst (perform env op self)) ops, self)"
proof (induction ops)
  case Nil
  then show ?case by simp
next
  case (Cons op ops)
  then show ?case
    using perform_self [of env op self] by (cases "perform env op self") simp
qed

text \<open>
  C7. No method, route or scheduled call changes the instance: each leaves \<open>self\<close>,
  the model handle included, as it found it. So a sequence of requests ends on the
  instance it started on, for one the instance \<open>load_model\<close> left, and each request gets
  the answer it would get if it were served alone. The encoder is a function of its
  arguments here: what the library does inside the model object is outside this code.
\<close>

theorem service_state_unchanged:
  "snd (perform env op self) = self \<and>
   run env ops self = (map (\<lambda>op. fst (perform env op self)) ops, self)"
  by (simp add: perform_self run_self)

theorem service_state_unchanged_witness:
  "snd (load_model test_env EmbeddingService) = loaded \<and>
   snd (run test_env [Health, PostV1Embeddings (0, 1) Map.empty, KeepWarm,
          PostEmbed (1, 2) \<lparr>texts = [''a''], normalize_flag = False\<rparr>] loaded) = loaded"
  using service_state_unchanged [THEN conjunct2, of test_env
      "[Health, PostV1Embeddings (0, 1) Map.empty, KeepWarm,
          PostEmbed (1, 2) \<lparr>texts = [''a''], normalize_flag = False\<rparr>]" loaded]
  by (simp add: load_model_def test_env_def EmbeddingService_def loaded_def)

section \<open>Health\<close>

text \<open>
  C5. Once \<open>load_model\<close> has returned on a fresh instance, every call of \<open>health\<close>,
  also after any sequence of requests, returns the dict with \<open>status\<close> \<open>healthy\<close>, the
  model identifier, the name of GPU 0 and \<open>dims\<close> 1024.
\<close>

theorem health_when_loaded:
  assumes "fst (load_model env EmbeddingService) = Inr v"
  shows "\<exists>g. get_device_name env 0 = Inr g \<and>
           (\<forall>ops. fst (health env (snd (run env ops (snd (load_model env EmbeddingService))))) =
              Inr (JObj [(''status'', JStr ''healthy''),
                         (''model'', JStr ''NovaSearch/stella_en_400M_v5''),
                         (''gpu'', JStr g),
                         (''dims'', JInt 1024)]))"
proof -
  from assms obtain g where g: "get_device_name env 0 = Inr g"
    by (auto simp: load_model_def Let_def split: sum.splits)
  have "model_name (snd (load_model env EmbeddingService)) = ''NovaSearch/stella_en_400M_v5''"
    by (simp add: load_model_def Let_def EmbeddingService_def split: sum.splits)
  with g show ?thesis
    by (simp add: run_self health_def)
qed

theorem health_when_loaded_witness:
  "fst (load_model test_env EmbeddingService) = Inr JNull \<and>
   fst (health test_env (snd (run test_env [KeepWarm, GetHealth]
          (snd (load_model test_env EmbeddingService))))) =
     Inr (JObj [(''status'', JStr ''healthy''),
                (''model'', JStr ''NovaSearch/stella_en_400M_v5''),
                (''gpu'', JStr ''Tesla T4''),
                (''dims'', JInt 1024)])"
proof -
  have l: "fst (load_model test_env EmbeddingService) = Inr JNull"
    by (simp add: load_model_def test_env_def EmbeddingService_def)
  from health_when_loaded [OF l] obtain g where g: "get_device_name test_env 0 = Inr g"
    and h: "\<forall>ops. fst (health test_env
                (snd (run test_env ops (snd (load_model test_env EmbeddingService))))) =
              Inr (JObj [(''status'', JStr ''healthy''),
                         (''model'', JStr ''NovaSearch/stella_en_400M_v5''),
                         (''gpu'', JStr g),
                         (''dims'', JInt 1024)])"
    by blast
  from g have "g = ''Tesla T4''"
    by (simp add: test_env_def)
  with h have "fst (health test_env (snd (run test_env [KeepWarm, GetHealth]
          (snd (load_model test_env EmbeddingService))))) =
     Inr (JObj [(''status'', JStr ''healthy''),
                (''model'', JStr ''NovaSearch/stella_en_400M_v5''),
                (''gpu'', JStr ''Tesla T4''),
                (''dims'', JInt 1024)])"
    by blast
  with l show ?thesis
    by (rule conjI)
qed

section \<open>Normalised vectors\<close>

lemma embed_embeddings:
  assumes "model self = Some m" and "encode env m ts nf = Inr a"
    and "fst (embed env clk ts nf self) = Inr result"
  shows "py_getitem result ''embeddings'' = Inr (tolist a)"
  using assms by (auto simp: embed_def Let_def split: sum.splits)

lemma embed_success_any_clock:
  assumes "fst (embed env clk ts nf self) = Inr result"
  shows "\<exists>result'. fst (embed env clk' ts nf self) = Inr result'"
  using assms by (auto simp: embed_def Let_def split: option.splits sum.splits)

lemma test_env_unit_norm: "unit_norm_contract test_env 0"
  by (simp add: unit_norm_contract_def test_env_def wf_ndarray_def l2_norm_def)

text \<open>
  C8. When the encoder, asked to normalise, returns for a text a row whose L2 norm is
  within \<open>eps\<close> of 1, every successful call of \<open>embed\<close> on that text with normalisation
  on returns exactly that row of the encoder, so a vector of norm within \<open>eps\<close> of 1;
  and the call succeeds again with the same vector at any later clock reading and
  after any sequence of requests.
\<close>

theorem embed_unit_norm_repeatable:
  assumes "unit_norm_contract env eps"
    and "fst (embed env clk (JArr [JStr t]) True self) = Inr result"
  shows "\<exists>m a v.
           model self = Some m \<and> encode env m (JArr [JStr t]) True = Inr a \<and> v = flat a \<and>
           py_getitem result ''embeddings'' = Inr (JArr [JArr (map JFloat v)]) \<and>
           \<bar>l2_norm v - 1\<bar> \<le> eps \<and>
           (\<forall>ops clk'. \<exists>result'.
              fst (embed env clk' (JArr [JStr t]) True (snd (run env ops self))) = Inr result' \<and>
              py_getitem result' ''embeddings'' = Inr (JArr [JArr (map JFloat v)]))"
proof -
  from assms(2) obtain m a where m: "model self = Some m"
    and a: "encode env m (JArr [JStr t]) True = Inr a"
    by (auto simp: embed_def Let_def split: option.splits sum.splits)
  from assms(1) a have wf: "wf_ndarray a" and two: "length (shape a) = 2"
    and one: "hd (shape a) = 1" and norm: "\<bar>l2_norm (flat a) - 1\<bar> \<le> eps"
    unfolding unit_norm_contract_def by blast+
  have row: "tolist a = JArr [JArr (map JFloat (flat a))]"
    using wf two one by (rule tolist_one_row)
  have first: "py_getitem result ''embeddings'' = Inr (JArr [JArr (map JFloat (flat a))])"
    using embed_embeddings [OF m a assms(2)] row by simp
  have again: "\<exists>result'.
      fst (embed env clk' (JArr [JStr t]) True (snd (run env ops self))) = Inr result' \<and>
      py_getitem result' ''embeddings'' = Inr (JArr [JArr (map JFloat (flat a))])" for ops clk'
  proof -
    from embed_success_any_clock [OF assms(2)] obtain result'
      where r: "fst (embed env clk' (JArr [JStr t]) True self) = Inr result'"
      by blast
    from embed_embeddings [OF m a r] row r show ?thesis
      by (simp add: run_self)
  qed
  from m a first norm again show ?thesis
    by blast
qed

theorem embed_unit_norm_repeatable_witness:
  "unit_norm_contract test_env 0 \<and>
   fst (embed test_env (0, 1 / 8) (JArr [JStr ''hello'']) True loaded) =
     Inr (JObj [(''embeddings'', JArr [JArr [JFloat 0, JFloat 1]]),
                (''dims'', JInt 2), (''count'', JInt 1),
                (''model'', JStr ''NovaSearch/stella_en_400M_v5''),
                (''latency_ms'', JFloat 125)]) \<and>
   (\<exists>v. \<bar>l2_norm v - 1\<bar> \<le> 0 \<and>
      (\<exists>result'.
         fst (embed test_env (3, 4) (JArr [JStr ''hello'']) True
                (snd (run test_env [KeepWarm, GetHealth] loaded))) = Inr result' \<and>
         py_getitem result' ''embeddings'' = Inr (JArr [JArr (map JFloat v)])))"
proof -
  have e: "fst (embed test_env (0, 1 / 8) (JArr [JStr ''hello'']) True loaded) =
     Inr (JObj [(''embeddings'', JArr [JArr [JFloat 0, JFloat 1]]),
                (''dims'', JInt 2), (''count'', JInt 1),
                (''model'', JStr ''NovaSearch/stella_en_400M_v5''),
                (''latency_ms'', JFloat 125)])"
    by (simp add: embed_def test_env_def loaded_def shape_at_def tolist_def eval_nat_numeral)
  from embed_unit_norm_repeatable [OF test_env_unit_norm e] obtain v
    where n: "\<bar>l2_norm v - 1\<bar> \<le> 0"
      and r: "\<forall>ops clk'. \<exists>result'.
              fst (embed test_env clk' (JArr [JStr ''hello'']) True
                     (snd (run test_env ops loaded))) = Inr result' \<and>
              py_getitem result' ''embeddings'' = Inr (JArr [JArr (map JFloat v)])"
    by blast
  from r have "\<exists>result'.
         fst (embed test_env (3, 4) (JArr [JStr ''hello'']) True
                (snd (run test_env [KeepWarm, GetHealth] loaded))) = Inr result' \<and>
         py_getitem result' ''embeddings'' = Inr (JArr [JArr (map JFloat v)])"
    by blast
  with n have "\<exists>v. \<bar>l2_norm v - 1\<bar> \<le> 0 \<and>
      (\<exists>result'.
         fst (embed test_env (3, 4) (JArr [JStr ''hello'']) True
                (snd (run test_env [KeepWarm, GetHealth] loaded))) = Inr result' \<and>
         py_getitem result' ''embeddings'' = Inr (JArr [JArr (map JFloat v)]))"
    by blast
  with test_env_unit_norm e show ?thesis
    by blast
qed

end
